theory Spec2Isabelle
  imports Complex_Main "HOL-Library.Multiset"
begin

section \<open>Data model (frontend/src/App.tsx)\<close>

text \<open>
  The string unions of the source become datatypes. \<open>T3pt\<close> stands for the
  category key "3pt" (an Isabelle constructor cannot start with a digit).
\<close>

datatype AppTab = Home | Ai | Player | Leaders | Standings

datatype LeaderTab = T3pt | Pts | Reb | Ast | Blk | Fg

datatype status = Idle | Loading | Ok | Error

text \<open>
  The search text is trimmed, so its characters matter beyond ASCII: it is a JavaScript
  string, a list of UTF-16 code units. A leaderboard row's name becomes the search text
  in the deep link, so it has the same type. \<open>ascii\<close> writes such a string from
  ASCII text.
\<close>

type_synonym js_string = "nat list"

definition ascii :: "string \<Rightarrow> js_string" where
  "ascii str = map of_char str"

text \<open>
  The DTOs. The per-category numeric fields of a leaderboard row and the per-game
  numbers of a game log are only rendered, never inspected by the controller, and are
  left out; a game-log response keeps the ids of its games.
\<close>

record Leader =
  player_id :: nat
  player_name :: js_string
  team_abbreviation :: string
  gp :: nat

record PlayerHit =
  nba_player_id :: nat
  full_name :: string
  nba_team_id :: "nat option"

record PlayerLastNResponse =
  stats_player_id :: nat
  stats_n :: nat
  stats_count :: nat
  games :: "string list"

subsection \<open>What a \<open>fetch\<close> can resolve to\<close>

text \<open>
  \<open>fetch(url)\<close> either rejects (network error) or resolves to a response with an HTTP
  status; \<open>r.json()\<close> on that response either throws (body is not JSON), or yields
  \<open>null\<close>, or yields a value. For the list endpoints the value is represented by the one
  field the handler reads (\<open>leaders\<close>, \<open>players\<close>, \<open>teams\<close>): \<open>None\<close> when the
  field is absent or null, which is what \<open>??\<close> tests.
\<close>

datatype 'a body = Unparseable | JsonNull | Json 'a

datatype 'a fetch_outcome = NetworkError | Http nat "'a body"

definition r_ok :: "nat \<Rightarrow> bool" where
  "r_ok st = (200 \<le> st \<and> st \<le> 299)"

definition or_empty :: "'a list option \<Rightarrow> 'a list" where
  "or_empty v = (case v of None \<Rightarrow> [] | Some xs \<Rightarrow> xs)"

subsection \<open>Controller state\<close>

text \<open>
  A request in flight carries what its URL and its callback's closure captured when it
  was issued: the leaders fetch its category and \<open>leadersLimit\<close>, the typeahead search
  its trimmed query, the deep-link search the leaderboard row's id and name, the game-log
  fetch the player id and the window.
\<close>

datatype request =
    LeadersReq LeaderTab nat
  | SearchReq js_string
  | DeepLinkReq nat js_string
  | StatsReq nat nat

datatype tab_timer = SwapTimer | UnlockTimer

text \<open>The dependency values the effects of the last committed render have seen.\<close>

record deps =
  d_leaderTab :: LeaderTab
  d_leadersLimit :: nat
  d_tab :: AppTab
  d_playerQuery :: js_string

text \<open>
  The \<open>useState\<close>/\<open>useRef\<close> slots of \<open>App\<close> under their source names, followed by
  the environment the component has created: requests in flight (in issue order), the
  pending tab-transition timers (both delays are 800 ms, so they fire in registration
  order), the pending debounce timer with the query its closure captured (the effect's
  cleanup clears the previous one, so there is at most one), and the effect dependencies
  of the last render.
\<close>

record app_state =
  tab :: AppTab
  isTabTransitioning :: bool
  pendingTabRef :: "AppTab option"
  leaderTab :: LeaderTab
  leadersStatus :: status
  leaders :: "Leader list"
  leadersLimit :: nat
  canLoadMore :: bool
  playerQuery :: js_string
  playerSearchStatus :: status
  playerResults :: "PlayerHit list"
  selectedPlayer :: "PlayerHit option"
  playerStatsStatus :: status
  playerStats :: "PlayerLastNResponse option"
  showAllGames :: bool
  inflight :: "request list"
  tab_timers :: "tab_timer list"
  debounce :: "js_string option"
  rendered :: deps

definition DEFAULT_LAST_N :: nat where
  "DEFAULT_LAST_N = 10"

definition ALL_GAMES_N :: nat where
  "ALL_GAMES_N = 9999"

fun IMPLEMENTED_ROUTES :: "LeaderTab \<Rightarrow> bool" where
  "IMPLEMENTED_ROUTES T3pt = True"
| "IMPLEMENTED_ROUTES Pts = True"
| "IMPLEMENTED_ROUTES Reb = True"
| "IMPLEMENTED_ROUTES Ast = True"
| "IMPLEMENTED_ROUTES Blk = True"
| "IMPLEMENTED_ROUTES Fg = True"

section \<open>Leaderboard fetch\<close>

text \<open>
  \<open>fetchLeaders\<close> up to its \<open>await\<close>. The category and the limit are those of the render
  whose closure the call runs in, so they are arguments.
\<close>

definition fetchLeaders :: "LeaderTab \<Rightarrow> nat \<Rightarrow> app_state \<Rightarrow> app_state" where
  "fetchLeaders cat limit s =
     (if \<not> IMPLEMENTED_ROUTES cat
      then s\<lparr>leaders := [], leadersStatus := Idle, canLoadMore := True\<rparr>
      else s\<lparr>leadersStatus := Loading, inflight := inflight s @ [LeadersReq cat limit]\<rparr>)"

text \<open>
  The rest of \<open>fetchLeaders\<close>, run when the fetch settles. \<open>limit\<close> is the \<open>leadersLimit\<close>
  of the closure. A rejected fetch, a non-2xx status (\<open>throw new Error\<close>), a body that
  does not parse and a \<open>null\<close> body (reading \<open>data.leaders\<close> throws) all reach \<open>catch\<close>.
\<close>

fun leaders_resolved :: "nat \<Rightarrow> Leader list option fetch_outcome \<Rightarrow> app_state \<Rightarrow> app_state" where
  "leaders_resolved limit NetworkError s = s\<lparr>leadersStatus := Error\<rparr>"
| "leaders_resolved limit (Http st b) s =
     (if \<not> r_ok st then s\<lparr>leadersStatus := Error\<rparr>
      else case b of
          Unparseable \<Rightarrow> s\<lparr>leadersStatus := Error\<rparr>
        | JsonNull \<Rightarrow> s\<lparr>leadersStatus := Error\<rparr>
        | Json v \<Rightarrow>
            s\<lparr>leaders := or_empty v,
              canLoadMore := (length (or_empty v) \<ge> limit),
              leadersStatus := Ok\<rparr>)"

text \<open>The failures of a leaders fetch: everything but a 2xx response carrying a JSON value.\<close>

fun leaders_failed :: "'a fetch_outcome \<Rightarrow> bool" where
  "leaders_failed NetworkError = True"
| "leaders_failed (Http st Unparseable) = True"
| "leaders_failed (Http st JsonNull) = True"
| "leaders_failed (Http st (Json v)) = (\<not> r_ok st)"

section \<open>Tab navigation\<close>

text \<open>
  \<open>requestTabChange\<close>. \<open>tab\<close> and \<open>isTabTransitioning\<close> are read from the closure of the
  render the handler belongs to; handlers are invoked from the current render, so that is
  the state itself. The two \<open>window.setTimeout\<close> calls register the swap and then the
  unlock timer.
\<close>

definition requestTabChange :: "AppTab \<Rightarrow> app_state \<Rightarrow> app_state" where
  "requestTabChange next s =
     (if next = tab s then s
      else if isTabTransitioning s then s
      else s\<lparr>pendingTabRef := Some next,
             isTabTransitioning := True,
             tab_timers := tab_timers s @ [SwapTimer, UnlockTimer]\<rparr>)"

text \<open>The two timer callbacks. The swap reads the ref when it fires.\<close>

fun tab_timer_callback :: "tab_timer \<Rightarrow> app_state \<Rightarrow> app_state" where
  "tab_timer_callback SwapTimer s =
     (case pendingTabRef s of None \<Rightarrow> s | Some target \<Rightarrow> s\<lparr>tab := target\<rparr>)"
| "tab_timer_callback UnlockTimer s =
     s\<lparr>pendingTabRef := None, isTabTransitioning := False\<rparr>"

section \<open>Player search, game log and deep link\<close>

text \<open>
  \<open>String.prototype.trim\<close> removes leading and trailing white space, which in
  ECMAScript is \<open>WhiteSpace\<close> together with \<open>LineTerminator\<close>: TAB, LF, VT, FF, CR,
  SPACE, NO-BREAK SPACE, the other code points of the Unicode category Zs (U+1680,
  U+2000 to U+200A, U+202F, U+205F, U+3000), LINE SEPARATOR, PARAGRAPH SEPARATOR and
  U+FEFF. Each is a single code unit.
\<close>

definition is_ws :: "nat \<Rightarrow> bool" where
  "is_ws c = (c = 0x09 \<or> c = 0x0A \<or> c = 0x0B \<or> c = 0x0C \<or> c = 0x0D \<or> c = 0x20
              \<or> c = 0xA0 \<or> c = 0x1680 \<or> (0x2000 \<le> c \<and> c \<le> 0x200A)
              \<or> c = 0x2028 \<or> c = 0x2029 \<or> c = 0x202F \<or> c = 0x205F \<or> c = 0x3000
              \<or> c = 0xFEFF)"

definition trim :: "js_string \<Rightarrow> js_string" where
  "trim q = rev (dropWhile is_ws (rev (dropWhile is_ws q)))"

text \<open>\<open>fetchPlayerSearch\<close> up to the fetch; an empty string is falsy.\<close>

definition fetchPlayerSearch :: "js_string \<Rightarrow> app_state \<Rightarrow> app_state" where
  "fetchPlayerSearch q s =
     (let trimmed = trim q in
      if trimmed = [] then s\<lparr>playerResults := [], playerSearchStatus := Idle\<rparr>
      else s\<lparr>playerSearchStatus := Loading, inflight := inflight s @ [SearchReq trimmed]\<rparr>)"

text \<open>
  The promise chain of \<open>fetchPlayerSearch\<close>: \<open>r.json()\<close> is called whatever the status
  is; a rejection, a body that does not parse and a \<open>null\<close> body (reading
  \<open>data.players\<close> throws) reach \<open>catch\<close>.
\<close>

fun search_resolved :: "PlayerHit list option fetch_outcome \<Rightarrow> app_state \<Rightarrow> app_state" where
  "search_resolved NetworkError s = s\<lparr>playerSearchStatus := Error\<rparr>"
| "search_resolved (Http st Unparseable) s = s\<lparr>playerSearchStatus := Error\<rparr>"
| "search_resolved (Http st JsonNull) s = s\<lparr>playerSearchStatus := Error\<rparr>"
| "search_resolved (Http st (Json v)) s =
     s\<lparr>playerResults := or_empty v, playerSearchStatus := Ok\<rparr>"

text \<open>\<open>fetchPlayerLastN\<close> up to the fetch.\<close>

definition fetchPlayerLastN :: "nat \<Rightarrow> nat \<Rightarrow> app_state \<Rightarrow> app_state" where
  "fetchPlayerLastN nbaPlayerId n s =
     s\<lparr>playerStatsStatus := Loading, inflight := inflight s @ [StatsReq nbaPlayerId n]\<rparr>"

text \<open>
  The promise chain of \<open>fetchPlayerLastN\<close>. The parsed value is stored as it is; a
  \<open>null\<close> body is stored as \<open>null\<close>.
\<close>

fun stats_resolved :: "PlayerLastNResponse fetch_outcome \<Rightarrow> app_state \<Rightarrow> app_state" where
  "stats_resolved NetworkError s = s\<lparr>playerStatsStatus := Error\<rparr>"
| "stats_resolved (Http st Unparseable) s = s\<lparr>playerStatsStatus := Error\<rparr>"
| "stats_resolved (Http st JsonNull) s = s\<lparr>playerStats := None, playerStatsStatus := Ok\<rparr>"
| "stats_resolved (Http st (Json d)) s = s\<lparr>playerStats := Some d, playerStatsStatus := Ok\<rparr>"

text \<open>\<open>jumpToPlayerFromLeader\<close> up to the fetch.\<close>

definition jumpToPlayerFromLeader :: "nat \<Rightarrow> js_string \<Rightarrow> app_state \<Rightarrow> app_state" where
  "jumpToPlayerFromLeader playerId playerName s =
     (let s1 = requestTabChange Player s in
      s1\<lparr>selectedPlayer := None,
         playerStats := None,
         showAllGames := False,
         playerQuery := playerName,
         playerSearchStatus := Loading,
         inflight := inflight s1 @ [DeepLinkReq playerId playerName]\<rparr>)"

text \<open>
  The promise chain of \<open>jumpToPlayerFromLeader\<close>; \<open>List.find\<close> is
  \<open>Array.prototype.find\<close>.
\<close>

fun jump_resolved :: "nat \<Rightarrow> PlayerHit list option fetch_outcome \<Rightarrow> app_state \<Rightarrow> app_state" where
  "jump_resolved playerId NetworkError s = s\<lparr>playerSearchStatus := Error\<rparr>"
| "jump_resolved playerId (Http st Unparseable) s = s\<lparr>playerSearchStatus := Error\<rparr>"
| "jump_resolved playerId (Http st JsonNull) s = s\<lparr>playerSearchStatus := Error\<rparr>"
| "jump_resolved playerId (Http st (Json v)) s =
     (case List.find (\<lambda>p. nba_player_id p = playerId) (or_empty v) of
        Some exact \<Rightarrow>
          (fetchPlayerLastN (nba_player_id exact) DEFAULT_LAST_N
             (s\<lparr>selectedPlayer := Some exact, playerQuery := [], playerResults := []\<rparr>))
            \<lparr>playerSearchStatus := Ok\<rparr>
      | None \<Rightarrow> s\<lparr>playerSearchStatus := Ok\<rparr>)"

text \<open>The three \<open>onClick\<close> handlers of the player page.\<close>

definition select_result :: "PlayerHit \<Rightarrow> app_state \<Rightarrow> app_state" where
  "select_result p s =
     fetchPlayerLastN (nba_player_id p) DEFAULT_LAST_N
       (s\<lparr>selectedPlayer := Some p, showAllGames := False, playerQuery := [],
          playerResults := []\<rparr>)"

definition toggle_show_all :: "PlayerHit \<Rightarrow> app_state \<Rightarrow> app_state" where
  "toggle_show_all sel s =
     (let next = \<not> showAllGames s in
      fetchPlayerLastN (nba_player_id sel) (if next then ALL_GAMES_N else DEFAULT_LAST_N)
        (s\<lparr>showAllGames := next\<rparr>))"

definition clear_selection :: "app_state \<Rightarrow> app_state" where
  "clear_selection s =
     s\<lparr>selectedPlayer := None, playerStats := None, showAllGames := False,
       playerQuery := [], playerResults := []\<rparr>"

section \<open>Renders and effects\<close>

text \<open>
  A state update schedules a render. After a render is committed its effects run, in the
  order of their declaration, each only if one of its dependencies differs from the
  value the previous render had. Every effect of one render reads the constants of that
  render (here: of \<open>s\<close>); what the effects set is only visible to the next render.
  The effects of \<open>App\<close>, in order:
  \<^item> \<open>[leaderTab]\<close>: reset paging;
  \<^item> \<open>[tab]\<close>: reset paging if the tab is \<open>leaders\<close>;
  \<^item> \<open>[leaderTab, leadersLimit, tab]\<close>: \<open>fetchLeaders()\<close> if the tab is \<open>leaders\<close>;
  \<^item> \<open>[playerQuery]\<close>: clear the pending debounce timer and start one for
    \<open>fetchPlayerSearch(playerQuery)\<close>.
  (The mount-only effect is in \<open>mount_effects\<close>.)
\<close>

definition deps_of :: "app_state \<Rightarrow> deps" where
  "deps_of s = \<lparr>d_leaderTab = leaderTab s, d_leadersLimit = leadersLimit s,
               d_tab = tab s, d_playerQuery = playerQuery s\<rparr>"

definition reset_paging :: "app_state \<Rightarrow> app_state" where
  "reset_paging s = s\<lparr>leadersLimit := 10, canLoadMore := True\<rparr>"

definition render_pass :: "app_state \<Rightarrow> app_state" where
  "render_pass s =
     (let prev = rendered s;
          s1 = (if d_leaderTab prev \<noteq> leaderTab s then reset_paging s else s);
          s2 = (if d_tab prev \<noteq> tab s
                then (if tab s = Leaders then reset_paging s1 else s1) else s1);
          s3 = (if d_leaderTab prev \<noteq> leaderTab s \<or> d_leadersLimit prev \<noteq> leadersLimit s
                   \<or> d_tab prev \<noteq> tab s
                then (if tab s = Leaders then fetchLeaders (leaderTab s) (leadersLimit s) s2
                      else s2)
                else s2);
          s4 = (if d_playerQuery prev \<noteq> playerQuery s
                then s3\<lparr>debounce := Some (playerQuery s)\<rparr> else s3)
      in s4\<lparr>rendered := deps_of s\<rparr>)"

text \<open>
  The effects change \<open>leadersLimit\<close> at most, and only to 10, so the render they schedule
  is the last one: two passes reach a state whose render changes nothing
  (lemma \<open>render_pass_settle\<close>).
\<close>

definition settle :: "app_state \<Rightarrow> app_state" where
  "settle s = render_pass (render_pass s)"

text \<open>The \<open>useState\<close> initial values, and the first render, where every effect runs.\<close>

definition initial_state :: app_state where
  "initial_state =
     \<lparr>tab = Home, isTabTransitioning = False, pendingTabRef = None,
      leaderTab = T3pt, leadersStatus = Idle, leaders = [], leadersLimit = 10,
      canLoadMore = True,
      playerQuery = [], playerSearchStatus = Idle, playerResults = [],
      selectedPlayer = None, playerStatsStatus = Idle, playerStats = None,
      showAllGames = False,
      inflight = [], tab_timers = [], debounce = None,
      rendered = \<lparr>d_leaderTab = T3pt, d_leadersLimit = 10, d_tab = Home,
                  d_playerQuery = []\<rparr>\<rparr>"

definition mount_effects :: "app_state \<Rightarrow> app_state" where
  "mount_effects s =
     (let s1 = reset_paging s;
          s2 = (if tab s = Leaders then reset_paging s1 else s1);
          s3 = fetchLeaders (leaderTab s) (leadersLimit s) s2;
          s4 = (if tab s = Leaders then fetchLeaders (leaderTab s) (leadersLimit s) s3
                else s3);
          s5 = s4\<lparr>debounce := Some (playerQuery s)\<rparr>
      in s5\<lparr>rendered := deps_of s\<rparr>)"

definition mounted :: app_state where
  "mounted = render_pass (mount_effects initial_state)"

section \<open>Events\<close>

text \<open>
  What can happen to the mounted component: a user action on an element that is rendered
  and enabled, a timer firing, a request in flight settling. A response names the
  request by its position among those in flight, so responses may arrive in any order.
  An event whose element is not rendered, or whose timer or request does not exist,
  changes nothing.
\<close>

datatype event =
    RequestTab AppTab
  | SetLeaderTab LeaderTab
  | LoadMore
  | ClickLeaderRow nat
  | SetQuery js_string
  | ToggleShowAll
  | ClearSelection
  | SelectResult nat
  | TabTimerFires
  | DebounceFires
  | LeadersResponse nat "Leader list option fetch_outcome"
  | SearchResponse nat "PlayerHit list option fetch_outcome"
  | StatsResponse nat "PlayerLastNResponse fetch_outcome"

definition remove_nth :: "nat \<Rightarrow> 'a list \<Rightarrow> 'a list" where
  "remove_nth k xs = take k xs @ drop (Suc k) xs"

fun handle :: "event \<Rightarrow> app_state \<Rightarrow> app_state" where
  "handle (RequestTab next) s = requestTabChange next s"
| "handle (SetLeaderTab v) s = (if tab s = Leaders then s\<lparr>leaderTab := v\<rparr> else s)"
| "handle LoadMore s =
     (if tab s = Leaders \<and> leadersStatus s = Ok \<and> canLoadMore s
      then s\<lparr>leadersLimit := leadersLimit s + 10\<rparr> else s)"
| "handle (ClickLeaderRow i) s =
     (if tab s = Leaders \<and> leadersStatus s \<noteq> Loading \<and> i < length (leaders s)
      then jumpToPlayerFromLeader (player_id (leaders s ! i)) (player_name (leaders s ! i)) s
      else s)"
| "handle (SetQuery q) s = (if tab s = Player then s\<lparr>playerQuery := q\<rparr> else s)"
| "handle ToggleShowAll s =
     (if tab s = Player
      then (case selectedPlayer s of None \<Rightarrow> s | Some sel \<Rightarrow> toggle_show_all sel s)
      else s)"
| "handle ClearSelection s =
     (if tab s = Player \<and> selectedPlayer s \<noteq> None then clear_selection s else s)"
| "handle (SelectResult i) s =
     (if tab s = Player \<and> i < length (playerResults s)
      then select_result (playerResults s ! i) s else s)"
| "handle TabTimerFires s =
     (case tab_timers s of
        [] \<Rightarrow> s
      | t # ts \<Rightarrow> tab_timer_callback t (s\<lparr>tab_timers := ts\<rparr>))"
| "handle DebounceFires s =
     (case debounce s of
        None \<Rightarrow> s
      | Some q \<Rightarrow> fetchPlayerSearch q (s\<lparr>debounce := None\<rparr>))"
| "handle (LeadersResponse k out) s =
     (if k < length (inflight s)
      then (case inflight s ! k of
              LeadersReq cat limit \<Rightarrow>
                leaders_resolved limit out (s\<lparr>inflight := remove_nth k (inflight s)\<rparr>)
            | _ \<Rightarrow> s)
      else s)"
| "handle (SearchResponse k out) s =
     (if k < length (inflight s)
      then (case inflight s ! k of
              SearchReq q \<Rightarrow> search_resolved out (s\<lparr>inflight := remove_nth k (inflight s)\<rparr>)
            | DeepLinkReq playerId playerName \<Rightarrow>
                jump_resolved playerId out (s\<lparr>inflight := remove_nth k (inflight s)\<rparr>)
            | _ \<Rightarrow> s)
      else s)"
| "handle (StatsResponse k out) s =
     (if k < length (inflight s)
      then (case inflight s ! k of
              StatsReq nbaPlayerId n \<Rightarrow>
                stats_resolved out (s\<lparr>inflight := remove_nth k (inflight s)\<rparr>)
            | _ \<Rightarrow> s)
      else s)"

definition step :: "event \<Rightarrow> app_state \<Rightarrow> app_state" where
  "step e s = settle (handle e s)"

fun run :: "event list \<Rightarrow> app_state \<Rightarrow> app_state" where
  "run [] s = s"
| "run (e # es) s = run es (step e s)"






section \<open>Standings (frontend/src/Standings.tsx)\<close>

record Team =
  team_id :: "nat option"
  team_name :: "string option"
  conference :: "string option"
  playoff_rank :: "int option"
  wins :: "nat option"
  losses :: "nat option"
  win_pct :: "rat option"
  l10 :: "string option"
  streak :: "string option"

text \<open>
  \<open>toLowerCase\<close> and \<open>includes\<close> (here \<open>str_includes\<close>) on ASCII strings. \<open>win_pct\<close> is a JSON number; only
  the sign of a difference of two of them is used, so it is an exact rational here.
\<close>

definition lower_char :: "char \<Rightarrow> char" where
  "lower_char c =
     (case map_of (zip ''ABCDEFGHIJKLMNOPQRSTUVWXYZ'' ''abcdefghijklmnopqrstuvwxyz'') c of
        None \<Rightarrow> c
      | Some l \<Rightarrow> l)"

definition toLowerCase :: "string \<Rightarrow> string" where
  "toLowerCase str = map lower_char str"

fun starts_with :: "string \<Rightarrow> string \<Rightarrow> bool" where
  "starts_with str [] = True"
| "starts_with [] (p # ps) = False"
| "starts_with (c # cs) (p # ps) = (c = p \<and> starts_with cs ps)"

fun str_includes :: "string \<Rightarrow> string \<Rightarrow> bool" where
  "str_includes [] pat = (pat = [])"
| "str_includes (c # cs) pat = (starts_with (c # cs) pat \<or> str_includes cs pat)"

text \<open>\<open>(t.conference ?? "").toLowerCase()\<close>, and the two defaulted sort keys.\<close>

definition conf_lower :: "Team \<Rightarrow> string" where
  "conf_lower t = toLowerCase (case conference t of None \<Rightarrow> [] | Some c \<Rightarrow> c)"

definition rank_key :: "Team \<Rightarrow> int" where
  "rank_key t = (case playoff_rank t of None \<Rightarrow> 999 | Some r \<Rightarrow> r)"

definition pct_key :: "Team \<Rightarrow> rat" where
  "pct_key t = (case win_pct t of None \<Rightarrow> - 1 | Some w \<Rightarrow> w)"

text \<open>
  The comparator of \<open>sortStandings\<close>. \<open>String.prototype.localeCompare\<close> is the
  platform's collation and is the parameter \<open>lc\<close>.
\<close>

definition compare_teams :: "(string \<Rightarrow> string \<Rightarrow> int) \<Rightarrow> Team \<Rightarrow> Team \<Rightarrow> rat" where
  "compare_teams lc a b =
     (let ca = conf_lower a; cb = conf_lower b in
      if ca \<noteq> cb then of_int (lc ca cb)
      else let ra = rank_key a; rb = rank_key b in
        if ra \<noteq> rb then of_int (ra - rb)
        else pct_key b - pct_key a)"

text \<open>
  \<open>Array.prototype.sort\<close> with a comparator is stable: an element moves in front of
  another only when the comparator puts it strictly first. For a comparator that is a
  total preorder the result of a stable sort is unique, and insertion from the right
  computes it.
\<close>

fun insert_sorted :: "('a \<Rightarrow> 'a \<Rightarrow> rat) \<Rightarrow> 'a \<Rightarrow> 'a list \<Rightarrow> 'a list" where
  "insert_sorted cmp x [] = [x]"
| "insert_sorted cmp x (y # ys) =
     (if cmp x y \<le> 0 then x # y # ys else y # insert_sorted cmp x ys)"

fun array_sort :: "('a \<Rightarrow> 'a \<Rightarrow> rat) \<Rightarrow> 'a list \<Rightarrow> 'a list" where
  "array_sort cmp [] = []"
| "array_sort cmp (x # xs) = insert_sorted cmp x (array_sort cmp xs)"

definition sortStandings :: "(string \<Rightarrow> string \<Rightarrow> int) \<Rightarrow> Team list \<Rightarrow> Team list" where
  "sortStandings lc ts = array_sort (compare_teams lc) ts"

text \<open>The state of the \<open>Standings\<close> component, its fetch and the derived lists.\<close>

record standings_state =
  standings_status :: status
  teams :: "Team list"

definition fetchFromDb :: "standings_state \<Rightarrow> standings_state" where
  "fetchFromDb s = s\<lparr>standings_status := Loading\<rparr>"

fun standings_resolved ::
  "(string \<Rightarrow> string \<Rightarrow> int) \<Rightarrow> Team list option fetch_outcome \<Rightarrow> standings_state \<Rightarrow> standings_state"
where
  "standings_resolved lc NetworkError s = s\<lparr>standings_status := Error\<rparr>"
| "standings_resolved lc (Http st Unparseable) s = s\<lparr>standings_status := Error\<rparr>"
| "standings_resolved lc (Http st JsonNull) s = s\<lparr>standings_status := Error\<rparr>"
| "standings_resolved lc (Http st (Json v)) s =
     s\<lparr>teams := sortStandings lc (or_empty v), standings_status := Ok\<rparr>"

definition east :: "Team list \<Rightarrow> Team list" where
  "east ts = filter (\<lambda>t. str_includes (conf_lower t) ''east'') ts"

definition west :: "Team list \<Rightarrow> Team list" where
  "west ts = filter (\<lambda>t. str_includes (conf_lower t) ''west'') ts"

definition hasSplit :: "Team list \<Rightarrow> bool" where
  "hasSplit ts = (length (east ts) > 0 \<or> length (west ts) > 0)"

text \<open>
  The order the claim about the derived lists speaks of: playoff rank ascending, win
  percentage descending among equal ranks (on the defaulted keys).
\<close>

definition rank_then_pct :: "Team \<Rightarrow> Team \<Rightarrow> bool" where
  "rank_then_pct a b =
     (rank_key a < rank_key b \<or> (rank_key a = rank_key b \<and> pct_key b \<le> pct_key a))"

text \<open>A team whose label is one of the two conference names, in any letter case.\<close>

definition two_conf :: "Team \<Rightarrow> bool" where
  "two_conf t =
     (conf_lower t = ''eastern conference'' \<or> conf_lower t = ''western conference'')"

section \<open>Example data and event sequences\<close>

definition curry :: PlayerHit where
  "curry = \<lparr>nba_player_id = 201, full_name = ''Stephen Curry'',
            nba_team_id = Some 1610612744\<rparr>"

definition lebron :: PlayerHit where
  "lebron = \<lparr>nba_player_id = 2544, full_name = ''LeBron James'',
             nba_team_id = Some 1610612747\<rparr>"

definition curry_stats :: PlayerLastNResponse where
  "curry_stats = \<lparr>stats_player_id = 201, stats_n = 10, stats_count = 1,
                  games = [''0022500001'']\<rparr>"

definition lebron_stats :: PlayerLastNResponse where
  "lebron_stats = \<lparr>stats_player_id = 2544, stats_n = 10, stats_count = 1,
                   games = [''0022500002'']\<rparr>"

text \<open>Open the player page and wait for the transition to end.\<close>

definition to_player_page :: "event list" where
  "to_player_page = [RequestTab Player, TabTimerFires, TabTimerFires]"

text \<open>
  Type "cur", let the debounce timer fire, receive one hit and click it. The request
  at position 0 is the leaders fetch of the mount effect, which stays unanswered.
\<close>

definition pick_curry :: "event list" where
  "pick_curry = to_player_page @ [SetQuery (ascii ''cur''), DebounceFires,
      SearchResponse 1 (Http 200 (Json (Some [curry]))), SelectResult 0]"

text \<open>The game log arrives while Curry is still selected.\<close>

definition fresh_trace :: "event list" where
  "fresh_trace = pick_curry @ [StatsResponse 1 (Http 200 (Json curry_stats))]"

text \<open>
  Before Curry's game log arrives the user searches and picks LeBron; LeBron's game log
  arrives first, Curry's second.
\<close>

definition race_trace :: "event list" where
  "race_trace = pick_curry @ [SetQuery (ascii ''leb''), DebounceFires,
      SearchResponse 2 (Http 200 (Json (Some [lebron]))), SelectResult 0,
      StatsResponse 2 (Http 200 (Json lebron_stats)),
      StatsResponse 1 (Http 200 (Json curry_stats))]"

text \<open>Type "cur" and receive one hit; then erase the text.\<close>

definition results_shown :: "event list" where
  "results_shown = to_player_page @ [SetQuery (ascii ''cur''), DebounceFires,
      SearchResponse 1 (Http 200 (Json (Some [curry])))]"

definition typed_then_erased :: "event list" where
  "typed_then_erased = results_shown @ [SetQuery []]"

text \<open>A query of a no-break space, a space and an ideographic space.\<close>

definition blank_query :: js_string where
  "blank_query = [0xA0, 0x20, 0x3000]"

definition row :: Leader where
  "row = \<lparr>player_id = 201, player_name = ascii ''Stephen Curry'', team_abbreviation = ''GSW'',
          gp = 20\<rparr>"

definition rows_ok :: "nat \<Rightarrow> Leader list option fetch_outcome" where
  "rows_ok n = Http 200 (Json (Some (replicate n row)))"

text \<open>
  Open the leaders page, receive the ten rows of the mount fetch and of the fetch on
  entering the page, click "Load more", receive twenty rows.
\<close>

definition to_leaders_20 :: "event list" where
  "to_leaders_20 = [RequestTab Leaders, TabTimerFires, TabTimerFires,
      LeadersResponse 0 (rows_ok 10), LeadersResponse 0 (rows_ok 10),
      LoadMore, LeadersResponse 0 (rows_ok 20)]"

text \<open>
  The scenario of the specification: on the leaders page (both earlier fetches answered)
  choose "pts"; then receive ten rows and click "Load more".
\<close>

definition pts_first_page :: "event list" where
  "pts_first_page = [RequestTab Leaders, TabTimerFires, TabTimerFires,
      LeadersResponse 0 (rows_ok 10), LeadersResponse 0 (rows_ok 10), SetLeaderTab Pts]"

definition pts_second_page :: "event list" where
  "pts_second_page = pts_first_page @ [LeadersResponse 0 (rows_ok 10), LoadMore]"

text \<open>Then go to the home page and request the leaders page again.\<close>

definition leave_and_return :: "event list" where
  "leave_and_return = to_leaders_20 @ [RequestTab Home, TabTimerFires, TabTimerFires,
      RequestTab Leaders]"

text \<open>
  A collation for the example: comparison by code units, which orders lower-case ASCII
  words alphabetically.
\<close>

fun code_unit_compare :: "string \<Rightarrow> string \<Rightarrow> int" where
  "code_unit_compare [] [] = 0"
| "code_unit_compare [] (b # bs) = - 1"
| "code_unit_compare (a # as) [] = 1"
| "code_unit_compare (a # as) (b # bs) =
     (if (of_char a :: nat) < of_char b then - 1
      else if (of_char b :: nat) < of_char a then 1
      else code_unit_compare as bs)"

definition mk_team :: "nat \<Rightarrow> string \<Rightarrow> string \<Rightarrow> int \<Rightarrow> rat \<Rightarrow> Team" where
  "mk_team i nm conf rk pct =
     \<lparr>team_id = Some i, team_name = Some nm, conference = Some conf,
      playoff_rank = Some rk, wins = None, losses = None, win_pct = Some pct,
      l10 = None, streak = None\<rparr>"

definition lakers :: Team where
  "lakers = mk_team 1610612747 ''Lakers'' ''western conference'' 1 (7 / 10)"

definition knicks :: Team where
  "knicks = mk_team 1610612752 ''Knicks'' ''EASTERN CONFERENCE'' 2 (3 / 5)"

definition thunder :: Team where
  "thunder = mk_team 1610612760 ''Thunder'' ''Western Conference'' 1 (4 / 5)"

definition celtics :: Team where
  "celtics = mk_team 1610612738 ''Celtics'' ''Eastern Conference'' 1 (3 / 4)"

section \<open>Basic facts about renders\<close>

lemmas ev_defs = step_def settle_def render_pass_def Let_def deps_of_def reset_paging_def
  fetchLeaders_def requestTabChange_def fetchPlayerSearch_def trim_def is_ws_def
  select_result_def fetchPlayerLastN_def DEFAULT_LAST_N_def ALL_GAMES_N_def remove_nth_def
  clear_selection_def toggle_show_all_def jumpToPlayerFromLeader_def or_empty_def
  ascii_def

lemmas tr_defs = to_player_page_def pick_curry_def race_trace_def fresh_trace_def
  results_shown_def typed_then_erased_def blank_query_def rows_ok_def to_leaders_20_def leave_and_return_def r_ok_def
  pts_first_page_def pts_second_page_def

lemma routes_all [simp]: "IMPLEMENTED_ROUTES c"
  by (cases c) simp_all

lemma mounted_eq:
  "mounted = \<lparr>tab = Home, isTabTransitioning = False, pendingTabRef = None,
    leaderTab = T3pt, leadersStatus = Loading, leaders = [],
    leadersLimit = 10, canLoadMore = True, playerQuery = [],
    playerSearchStatus = Idle, playerResults = [], selectedPlayer = None,
    playerStatsStatus = Idle, playerStats = None, showAllGames = False,
    inflight = [LeadersReq T3pt 10], tab_timers = [], debounce = Some [],
    rendered = \<lparr>d_leaderTab = T3pt, d_leadersLimit = 10, d_tab = Home,
                d_playerQuery = []\<rparr>\<rparr>"
  by (simp add: mounted_def mount_effects_def initial_state_def render_pass_def
      reset_paging_def fetchLeaders_def deps_of_def Let_def)

lemma fetchLeaders_deps [simp]:
  "leaderTab (fetchLeaders c l s) = leaderTab s"
  "leadersLimit (fetchLeaders c l s) = leadersLimit s"
  "tab (fetchLeaders c l s) = tab s"
  "playerQuery (fetchLeaders c l s) = playerQuery s"
  "rendered (fetchLeaders c l s) = rendered s"
  by (simp_all add: fetchLeaders_def)

lemma reset_paging_deps [simp]:
  "leaderTab (reset_paging s) = leaderTab s"
  "leadersLimit (reset_paging s) = 10"
  "tab (reset_paging s) = tab s"
  "playerQuery (reset_paging s) = playerQuery s"
  by (simp_all add: reset_paging_def)

lemma render_pass_keeps:
  "leaderTab (render_pass s) = leaderTab s"
  "tab (render_pass s) = tab s"
  "playerQuery (render_pass s) = playerQuery s"
  "rendered (render_pass s) = deps_of s"
  by (simp_all add: render_pass_def Let_def)

lemma render_pass_other:
  "isTabTransitioning (render_pass s) = isTabTransitioning s"
  "pendingTabRef (render_pass s) = pendingTabRef s"
  "tab_timers (render_pass s) = tab_timers s"
  "playerSearchStatus (render_pass s) = playerSearchStatus s"
  "playerResults (render_pass s) = playerResults s"
  "selectedPlayer (render_pass s) = selectedPlayer s"
  "playerStatsStatus (render_pass s) = playerStatsStatus s"
  "playerStats (render_pass s) = playerStats s"
  "showAllGames (render_pass s) = showAllGames s"
  by (simp_all add: render_pass_def Let_def reset_paging_def fetchLeaders_def)

lemma render_pass_limit:
  "leadersLimit (render_pass s) =
     (if d_leaderTab (rendered s) \<noteq> leaderTab s
         \<or> (d_tab (rendered s) \<noteq> tab s \<and> tab s = Leaders)
      then 10 else leadersLimit s)"
  by (simp add: render_pass_def Let_def)

lemma settled_fields:
  assumes "rendered s = deps_of s"
  shows "d_leaderTab (rendered s) = leaderTab s"
    and "d_leadersLimit (rendered s) = leadersLimit s"
    and "d_tab (rendered s) = tab s"
    and "d_playerQuery (rendered s) = playerQuery s"
  by (simp_all add: assms deps_of_def)

lemma render_pass_fixed: "rendered s = deps_of s \<Longrightarrow> render_pass s = s"
proof -
  assume a: "rendered s = deps_of s"
  have "render_pass s = s\<lparr>rendered := deps_of s\<rparr>"
    by (simp add: render_pass_def Let_def settled_fields [OF a])
  also have "\<dots> = s" using a by simp
  finally show ?thesis .
qed

lemma settled_settle: "rendered (settle s) = deps_of (settle s)"
proof -
  have "leadersLimit (render_pass (render_pass s)) = leadersLimit (render_pass s)"
    by (simp add: render_pass_limit render_pass_keeps deps_of_def)
  then show ?thesis
    by (simp add: settle_def render_pass_keeps deps_of_def)
qed

lemma render_pass_settle: "render_pass (settle s) = settle s"
  by (rule render_pass_fixed) (rule settled_settle)

lemma settle_fixed: "rendered s = deps_of s \<Longrightarrow> settle s = s"
  by (simp add: settle_def render_pass_fixed)

lemma settle_keeps:
  "tab (settle s) = tab s"
  "leaderTab (settle s) = leaderTab s"
  "playerQuery (settle s) = playerQuery s"
  "isTabTransitioning (settle s) = isTabTransitioning s"
  "pendingTabRef (settle s) = pendingTabRef s"
  "tab_timers (settle s) = tab_timers s"
  "playerSearchStatus (settle s) = playerSearchStatus s"
  "playerResults (settle s) = playerResults s"
  "selectedPlayer (settle s) = selectedPlayer s"
  "playerStatsStatus (settle s) = playerStatsStatus s"
  "playerStats (settle s) = playerStats s"
  "showAllGames (settle s) = showAllGames s"
  by (simp_all add: settle_def render_pass_keeps render_pass_other)

section \<open>Properties of the leaderboard pagination\<close>

text \<open>
  A leaders response in a state whose effects have run is handled by the rest of
  \<open>fetchLeaders\<close> with the limit the request captured, and causes no further effect.
\<close>

lemma leaders_response_step:
  assumes k: "k < length (inflight s)" "inflight s ! k = LeadersReq cat limit"
    and r: "rendered s = deps_of s"
  shows "step (LeadersResponse k out) s
           = leaders_resolved limit out (s\<lparr>inflight := remove_nth k (inflight s)\<rparr>)"
proof -
  let ?s0 = "s\<lparr>inflight := remove_nth k (inflight s)\<rparr>"
  let ?s' = "leaders_resolved limit out ?s0"
  have h: "handle (LeadersResponse k out) s = ?s'"
    by (simp add: k)
  have "rendered ?s' = deps_of ?s'"
    using r by (cases "(limit, out, ?s0)" rule: leaders_resolved.cases)
      (auto simp: deps_of_def split: body.splits)
  then show ?thesis
    unfolding step_def h by (rule settle_fixed)
qed

text \<open>
  Claim C4. When a leaders fetch resolves with a 2xx status and a JSON value, the
  returned list (the empty list if the \<open>leaders\<close> field is missing) replaces the
  committed list, whatever that was, "more available" becomes (returned count \<ge>
  requested limit), and the status becomes \<open>ok\<close>; nothing else changes. As an event:
  the response to a request in flight that was issued with \<open>limit\<close> commits exactly
  that, and the limit stays.
\<close>

theorem leaders_success_replaces_list:
  "r_ok st \<longrightarrow>
   leaders_resolved limit (Http st (Json v)) s =
     s\<lparr>leaders := or_empty v,
       canLoadMore := (limit \<le> length (or_empty v)),
       leadersStatus := Ok\<rparr>
   \<and> (k < length (inflight s) \<and> inflight s ! k = LeadersReq cat limit
        \<and> rendered s = deps_of s
       \<longrightarrow> leaders (step (LeadersResponse k (Http st (Json v))) s) = or_empty v
         \<and> canLoadMore (step (LeadersResponse k (Http st (Json v))) s)
             = (limit \<le> length (or_empty v))
         \<and> leadersStatus (step (LeadersResponse k (Http st (Json v))) s) = Ok
         \<and> leadersLimit (step (LeadersResponse k (Http st (Json v))) s) = leadersLimit s)"
  by (simp add: leaders_response_step)

text \<open>
  The scenario of the specification: category "pts", ten rows at limit 10 give "more
  available"; after "Load more", seven rows at limit 20 replace the ten and give no more.
\<close>

theorem leaders_success_replaces_list_witness:
  "r_ok 200
  \<and> leaderTab (run pts_first_page mounted) = Pts
  \<and> inflight (run pts_first_page mounted) ! 0 = LeadersReq Pts 10
  \<and> rendered (run pts_first_page mounted) = deps_of (run pts_first_page mounted)
  \<and> leaders (step (LeadersResponse 0 (Http 200 (Json (Some (replicate 10 row)))))
       (run pts_first_page mounted)) = replicate 10 row
  \<and> canLoadMore (step (LeadersResponse 0 (Http 200 (Json (Some (replicate 10 row)))))
       (run pts_first_page mounted))
  \<and> inflight (run pts_second_page mounted) ! 0 = LeadersReq Pts 20
  \<and> rendered (run pts_second_page mounted) = deps_of (run pts_second_page mounted)
  \<and> leaders (run pts_second_page mounted) = replicate 10 row
  \<and> leaders (step (LeadersResponse 0 (Http 200 (Json (Some (replicate 7 row)))))
       (run pts_second_page mounted)) = replicate 7 row
  \<and> \<not> canLoadMore (step (LeadersResponse 0 (Http 200 (Json (Some (replicate 7 row)))))
       (run pts_second_page mounted))"
  using leaders_success_replaces_list
          [of 200 10 "Some (replicate 10 row)" "run pts_first_page mounted" 0 Pts]
        leaders_success_replaces_list
          [of 200 20 "Some (replicate 7 row)" "run pts_second_page mounted" 0 Pts]
  by (simp add: tr_defs mounted_eq ev_defs)

text \<open>
  Claim C5. When a leaders fetch fails (network error, non-2xx status, body that is not
  JSON or is \<open>null\<close>), the status becomes \<open>error\<close> and nothing else changes: the
  committed list, the limit and "more available" are as before. As an event: the failed
  response to a request in flight only removes the request and sets the status.
\<close>

theorem leaders_failure_keeps_results:
  "leaders_failed out \<longrightarrow>
   leaders_resolved limit out s = s\<lparr>leadersStatus := Error\<rparr>
   \<and> (k < length (inflight s) \<and> inflight s ! k = LeadersReq cat limit
        \<and> rendered s = deps_of s
       \<longrightarrow> step (LeadersResponse k out) s
             = s\<lparr>inflight := remove_nth k (inflight s), leadersStatus := Error\<rparr>)"
proof (intro impI)
  assume f: "leaders_failed out"
  have a: "leaders_resolved limit out s' = s'\<lparr>leadersStatus := Error\<rparr>" for s'
    using f by (cases out rule: leaders_failed.cases) simp_all
  show "leaders_resolved limit out s = s\<lparr>leadersStatus := Error\<rparr>
   \<and> (k < length (inflight s) \<and> inflight s ! k = LeadersReq cat limit
        \<and> rendered s = deps_of s
       \<longrightarrow> step (LeadersResponse k out) s
             = s\<lparr>inflight := remove_nth k (inflight s), leadersStatus := Error\<rparr>)"
    by (simp add: a leaders_response_step)
qed

text \<open>The "Load more" fetch of the scenario answered with a 503 whose body is not JSON.\<close>

theorem leaders_failure_keeps_results_witness:
  "leaders_failed (Http 503 (Unparseable :: Leader list option body))
  \<and> inflight (run pts_second_page mounted) ! 0 = LeadersReq Pts 20
  \<and> rendered (run pts_second_page mounted) = deps_of (run pts_second_page mounted)
  \<and> leaders (step (LeadersResponse 0 (Http 503 Unparseable)) (run pts_second_page mounted))
      = replicate 10 row
  \<and> leadersLimit (step (LeadersResponse 0 (Http 503 Unparseable))
       (run pts_second_page mounted)) = 20
  \<and> canLoadMore (step (LeadersResponse 0 (Http 503 Unparseable))
       (run pts_second_page mounted))
  \<and> leadersStatus (step (LeadersResponse 0 (Http 503 Unparseable))
       (run pts_second_page mounted)) = Error"
  using leaders_failure_keeps_results
          [of "Http 503 Unparseable" 20 "run pts_second_page mounted" 0 Pts]
  by (simp add: tr_defs mounted_eq ev_defs)

text \<open>
  Claim C10 as stated fails: the rows loaded before are not discarded on every return.
  Returning to the leaders page with twenty rows loaded issues two fetches (limit 20
  from the first render, limit 10 from the next). When both fail, or when the answer to
  the first arrives last, twenty rows are committed while the limit is 10.
\<close>

theorem returning_keeps_loaded_rows:
  "inflight (run (leave_and_return @ [TabTimerFires]) mounted)
     = [LeadersReq T3pt 20, LeadersReq T3pt 10]
   \<and> tab (run (leave_and_return @ [TabTimerFires, LeadersResponse 0 (Http 503 Unparseable),
         LeadersResponse 0 (Http 503 Unparseable)]) mounted) = Leaders
   \<and> leaders (run (leave_and_return @ [TabTimerFires, LeadersResponse 0 (Http 503 Unparseable),
         LeadersResponse 0 (Http 503 Unparseable)]) mounted) = replicate 20 row
   \<and> leadersLimit (run (leave_and_return @ [TabTimerFires,
         LeadersResponse 0 (Http 503 Unparseable),
         LeadersResponse 0 (Http 503 Unparseable)]) mounted) = 10
   \<and> inflight (run (leave_and_return @ [TabTimerFires,
         LeadersResponse 0 (Http 503 Unparseable),
         LeadersResponse 0 (Http 503 Unparseable)]) mounted) = []
   \<and> leaders (run (leave_and_return @ [TabTimerFires, LeadersResponse 1 (rows_ok 10),
         LeadersResponse 0 (rows_ok 20)]) mounted) = replicate 20 row
   \<and> leadersLimit (run (leave_and_return @ [TabTimerFires, LeadersResponse 1 (rows_ok 10),
         LeadersResponse 0 (rows_ok 20)]) mounted) = 10"
  by (simp add: tr_defs mounted_eq ev_defs)

text \<open>
  Claim C10, amended. When the swap timer makes \<open>leaders\<close> the active tab (the only
  way the tab changes), the committed state after the renders this causes has limit 10
  and "more available" true, with the category unchanged, and the last leaders request
  issued is the one for the category at limit 10. The committed rows are not touched by
  the reset: they stay until a leaders response replaces them.
\<close>

theorem leaders_reentry_resets_paging:
  "tab s \<noteq> Leaders \<and> pendingTabRef s = Some Leaders \<and> tab_timers s = SwapTimer # ts
     \<and> rendered s = deps_of s \<longrightarrow>
     tab (step TabTimerFires s) = Leaders
   \<and> leadersLimit (step TabTimerFires s) = 10
   \<and> canLoadMore (step TabTimerFires s)
   \<and> leaderTab (step TabTimerFires s) = leaderTab s
   \<and> last (inflight (step TabTimerFires s)) = LeadersReq (leaderTab s) 10
   \<and> leaders (step TabTimerFires s) = leaders s"
proof (intro impI, elim conjE)
  assume a: "tab s \<noteq> Leaders" "pendingTabRef s = Some Leaders" "tab_timers s = SwapTimer # ts"
    and r: "rendered s = deps_of s"
  note f = settled_fields [OF r]
  have h: "handle TabTimerFires s = s\<lparr>tab_timers := ts, tab := Leaders\<rparr>"
    by (simp add: a)
  show "tab (step TabTimerFires s) = Leaders
   \<and> leadersLimit (step TabTimerFires s) = 10
   \<and> canLoadMore (step TabTimerFires s)
   \<and> leaderTab (step TabTimerFires s) = leaderTab s
   \<and> last (inflight (step TabTimerFires s)) = LeadersReq (leaderTab s) 10
   \<and> leaders (step TabTimerFires s) = leaders s"
    unfolding step_def h
    by (simp add: settle_def render_pass_def Let_def deps_of_def reset_paging_def
        fetchLeaders_def f a)
qed

text \<open>Returning to the page with twenty rows loaded and limit 20.\<close>

theorem leaders_reentry_resets_paging_witness:
  "tab (run leave_and_return mounted) \<noteq> Leaders
   \<and> pendingTabRef (run leave_and_return mounted) = Some Leaders
   \<and> tab_timers (run leave_and_return mounted) = SwapTimer # [UnlockTimer]
   \<and> rendered (run leave_and_return mounted) = deps_of (run leave_and_return mounted)
   \<and> leadersLimit (run leave_and_return mounted) = 20
   \<and> leadersLimit (step TabTimerFires (run leave_and_return mounted)) = 10
   \<and> canLoadMore (step TabTimerFires (run leave_and_return mounted))
   \<and> leaders (step TabTimerFires (run leave_and_return mounted)) = replicate 20 row"
  using leaders_reentry_resets_paging [of "run leave_and_return mounted" "[UnlockTimer]"]
  by (simp add: tr_defs mounted_eq ev_defs)

text \<open>
  Claim C6, evaluated. On the leaders page with category "3pt" and limit 20 (nothing in
  flight), choosing "pts" issues two fetches: first one for "pts" with the old limit 20,
  from the effects of the render in which the reset is only scheduled, then one with
  limit 10 from the next render. If the first is answered last, twenty rows are
  committed while the limit is 10.
\<close>

theorem category_change_fetches_with_stale_limit:
  "leaderTab (run to_leaders_20 mounted) = T3pt
   \<and> leadersLimit (run to_leaders_20 mounted) = 20
   \<and> inflight (run to_leaders_20 mounted) = []
   \<and> inflight (run (to_leaders_20 @ [SetLeaderTab Pts]) mounted)
       = [LeadersReq Pts 20, LeadersReq Pts 10]
   \<and> leaders (run (to_leaders_20 @ [SetLeaderTab Pts, LeadersResponse 1 (rows_ok 10),
         LeadersResponse 0 (rows_ok 20)]) mounted) = replicate 20 row
   \<and> leadersLimit (run (to_leaders_20 @ [SetLeaderTab Pts, LeadersResponse 1 (rows_ok 10),
         LeadersResponse 0 (rows_ok 20)]) mounted) = 10"
  by (simp add: tr_defs mounted_eq ev_defs)

section \<open>Properties of the tab navigation\<close>

text \<open>
  Claim C8. \<open>requestTabChange next\<close> changes nothing when \<open>next\<close> is the active tab or
  a transition is in flight. Hence, from an idle state, two requests in succession
  register one swap and one unlock timer, the pending tab is the first target, and after
  the timers have fired the first target is the active tab and the machine is idle.
\<close>

theorem requestTabChange_first_target_wins:
  "(next = tab s \<or> isTabTransitioning s \<longrightarrow> requestTabChange next s = s)
   \<and> (n1 \<noteq> tab s \<and> \<not> isTabTransitioning s \<and> tab_timers s = [] \<longrightarrow>
        tab_timers (run [RequestTab n1, RequestTab n2] s) = [SwapTimer, UnlockTimer]
      \<and> pendingTabRef (run [RequestTab n1, RequestTab n2] s) = Some n1
      \<and> tab (run [RequestTab n1, RequestTab n2] s) = tab s
      \<and> tab (run [RequestTab n1, RequestTab n2, TabTimerFires] s) = n1
      \<and> tab (run [RequestTab n1, RequestTab n2, TabTimerFires, TabTimerFires] s) = n1
      \<and> \<not> isTabTransitioning
            (run [RequestTab n1, RequestTab n2, TabTimerFires, TabTimerFires] s)
      \<and> tab_timers (run [RequestTab n1, RequestTab n2, TabTimerFires, TabTimerFires] s) = [])"
  by (simp add: step_def settle_keeps requestTabChange_def)

theorem requestTabChange_first_target_wins_witness:
  "requestTabChange Home mounted = mounted
   \<and> Leaders \<noteq> tab mounted \<and> \<not> isTabTransitioning mounted \<and> tab_timers mounted = []
   \<and> tab (run [RequestTab Leaders, RequestTab Player, TabTimerFires, TabTimerFires] mounted)
       = Leaders
   \<and> tab_timers (run [RequestTab Leaders, RequestTab Player] mounted)
       = [SwapTimer, UnlockTimer]"
  using requestTabChange_first_target_wins [of Home mounted Leaders Player]
  by (simp add: mounted_eq)

section \<open>Properties of the player search\<close>




section \<open>Failures of the remote calls\<close>

text \<open>
  Claim C2, evaluated. A 404 whose body is a JSON object without the expected field
  (or a 500 with any JSON body, for the game log) is committed with status \<open>ok\<close> by the
  player search, the game-log fetch, the deep-link search and the standings fetch, none
  of which looks at the HTTP status; the leaders fetch, which tests \<open>r.ok\<close>, answers the
  same response with \<open>error\<close>.
\<close>

theorem non_2xx_committed_as_ok:
  "playerSearchStatus (search_resolved (Http 404 (Json None)) s) = Ok
   \<and> playerResults (search_resolved (Http 404 (Json None)) s) = []
   \<and> playerStatsStatus (stats_resolved (Http 500 (Json d)) s) = Ok
   \<and> playerStats (stats_resolved (Http 500 (Json d)) s) = Some d
   \<and> playerSearchStatus (jump_resolved playerId (Http 404 (Json None)) s) = Ok
   \<and> standings_status (standings_resolved lc (Http 404 (Json None)) t) = Ok
   \<and> \<not> r_ok 404 \<and> \<not> r_ok 500
   \<and> leadersStatus (leaders_resolved limit (Http 404 (Json None)) s) = Error"
  by (simp add: or_empty_def r_ok_def sortStandings_def)

section \<open>Properties of the deep link from a leaderboard row\<close>

lemma find_id:
  "List.find (\<lambda>p. nba_player_id p = playerId) xs = Some e
   \<Longrightarrow> nba_player_id e = playerId \<and> e \<in> set xs"
  by (induction xs) (auto split: if_splits)

text \<open>
  Claim C3. \<open>jumpToPlayerFromLeader\<close> clears the selection. When the re-issued search
  answers with a list in which no entry has the row's id, the only change is that the
  search status becomes \<open>ok\<close>: no selection, no request, no error status. When some
  entry has the id, an entry of the list with exactly that id is selected and the game
  log of that id is requested with the default window. Whatever the response is and
  whatever happened in between, the callback leaves the selection as it is or sets it to
  a player with the row's id.
\<close>

theorem deep_link_commits_exact_id_or_nothing:
  "selectedPlayer (jumpToPlayerFromLeader playerId name s) = None
 \<and> ((\<forall>p \<in> set (or_empty v). nba_player_id p \<noteq> playerId) \<longrightarrow>
      jump_resolved playerId (Http st (Json v)) (jumpToPlayerFromLeader playerId name s)
        = (jumpToPlayerFromLeader playerId name s)\<lparr>playerSearchStatus := Ok\<rparr>)
 \<and> ((\<exists>p \<in> set (or_empty v). nba_player_id p = playerId) \<longrightarrow>
      (\<exists>exact \<in> set (or_empty v). nba_player_id exact = playerId
         \<and> selectedPlayer (jump_resolved playerId (Http st (Json v))
               (jumpToPlayerFromLeader playerId name s)) = Some exact
         \<and> inflight (jump_resolved playerId (Http st (Json v))
               (jumpToPlayerFromLeader playerId name s))
             = inflight (jumpToPlayerFromLeader playerId name s)
                 @ [StatsReq playerId DEFAULT_LAST_N]))
 \<and> (selectedPlayer (jump_resolved playerId out s') = selectedPlayer s'
      \<or> (\<exists>exact. selectedPlayer (jump_resolved playerId out s') = Some exact
             \<and> nba_player_id exact = playerId))"
proof (intro conjI impI)
  let ?s1 = "jumpToPlayerFromLeader playerId name s"
  let ?found = "List.find (\<lambda>p. nba_player_id p = playerId) (or_empty v)"
  show "selectedPlayer ?s1 = None"
    by (simp add: jumpToPlayerFromLeader_def Let_def)
  show "jump_resolved playerId (Http st (Json v)) ?s1 = ?s1\<lparr>playerSearchStatus := Ok\<rparr>"
    if "\<forall>p \<in> set (or_empty v). nba_player_id p \<noteq> playerId"
  proof -
    have "?found = None"
      using that by (simp add: find_None_iff)
    then show ?thesis by simp
  qed
  show "\<exists>exact \<in> set (or_empty v). nba_player_id exact = playerId
         \<and> selectedPlayer (jump_resolved playerId (Http st (Json v)) ?s1) = Some exact
         \<and> inflight (jump_resolved playerId (Http st (Json v)) ?s1)
             = inflight ?s1 @ [StatsReq playerId DEFAULT_LAST_N]"
    if "\<exists>p \<in> set (or_empty v). nba_player_id p = playerId"
  proof -
    from that obtain e where e: "?found = Some e"
      by (cases ?found) (auto simp: find_None_iff)
    from find_id [OF e] have "nba_player_id e = playerId" "e \<in> set (or_empty v)"
      by simp_all
    then show ?thesis using e by (auto simp: fetchPlayerLastN_def)
  qed
  show "selectedPlayer (jump_resolved playerId out s') = selectedPlayer s'
      \<or> (\<exists>exact. selectedPlayer (jump_resolved playerId out s') = Some exact
             \<and> nba_player_id exact = playerId)"
    by (cases "(playerId, out, s')" rule: jump_resolved.cases)
       (auto simp: fetchPlayerLastN_def split: option.splits dest: find_id)
qed

text \<open>
  The row of player 201: a result list with that id behind another player selects the
  entry with id 201, a result list without it selects nobody and shows status \<open>ok\<close>.
\<close>

theorem deep_link_commits_exact_id_or_nothing_witness:
  "nba_player_id curry = 201 \<and> nba_player_id lebron \<noteq> 201
  \<and> selectedPlayer (jump_resolved 201 (Http 200 (Json (Some [lebron, curry])))
        (jumpToPlayerFromLeader 201 (ascii ''Stephen Curry'') mounted)) = Some curry
  \<and> selectedPlayer (jump_resolved 201 (Http 200 (Json (Some [lebron])))
        (jumpToPlayerFromLeader 201 (ascii ''Stephen Curry'') mounted)) = None
  \<and> playerSearchStatus (jump_resolved 201 (Http 200 (Json (Some [lebron])))
        (jumpToPlayerFromLeader 201 (ascii ''Stephen Curry'') mounted)) = Ok"
  using deep_link_commits_exact_id_or_nothing
          [of 201 "ascii ''Stephen Curry''" mounted "Some [lebron, curry]" 200]
        deep_link_commits_exact_id_or_nothing
          [of 201 "ascii ''Stephen Curry''" mounted "Some [lebron]" 200]
  by (simp add: or_empty_def curry_def lebron_def jumpToPlayerFromLeader_def Let_def)

section \<open>Stale responses\<close>


lemma tab_timer_callback_player [simp]:
  "selectedPlayer (tab_timer_callback t s) = selectedPlayer s"
  "playerStats (tab_timer_callback t s) = playerStats s"
  "playerStatsStatus (tab_timer_callback t s) = playerStatsStatus s"
  by (cases t; simp split: option.splits)+









section \<open>Properties of the standings partition\<close>

lemma mset_insert_sorted: "mset (insert_sorted cmp x xs) = add_mset x (mset xs)"
  by (induction xs) auto

lemma mset_array_sort: "mset (array_sort cmp xs) = mset xs"
  by (induction xs) (auto simp: mset_insert_sorted)

lemma set_insert_sorted: "set (insert_sorted cmp x xs) = insert x (set xs)"
  by (induction xs) auto

lemma set_array_sort: "set (array_sort cmp xs) = set xs"
  by (induction xs) (auto simp: set_insert_sorted)

lemma sorted_insert_sorted:
  assumes tot: "\<And>a b. a \<in> A \<Longrightarrow> b \<in> A \<Longrightarrow> cmp a b \<le> 0 \<or> cmp b a \<le> 0"
    and tr: "\<And>a b c. a \<in> A \<Longrightarrow> b \<in> A \<Longrightarrow> c \<in> A \<Longrightarrow> cmp a b \<le> 0 \<Longrightarrow> cmp b c \<le> 0 \<Longrightarrow> cmp a c \<le> 0"
  shows "x \<in> A \<Longrightarrow> set ys \<subseteq> A \<Longrightarrow> sorted_wrt (\<lambda>a b. cmp a b \<le> 0) ys
         \<Longrightarrow> sorted_wrt (\<lambda>a b. cmp a b \<le> 0) (insert_sorted cmp x ys)"
proof (induction ys)
  case Nil
  then show ?case by simp
next
  case (Cons y ys)
  show ?case
  proof (cases "cmp x y \<le> 0")
    case True
    have "cmp x z \<le> 0" if "z \<in> set ys" for z
      using tr [of x y z] True Cons.prems that by auto
    with True Cons.prems show ?thesis by auto
  next
    case False
    then have yx: "cmp y x \<le> 0" using tot [of x y] Cons.prems by auto
    have "sorted_wrt (\<lambda>a b. cmp a b \<le> 0) (insert_sorted cmp x ys)"
      using Cons by auto
    with False yx Cons.prems show ?thesis
      by (auto simp: set_insert_sorted)
  qed
qed

lemma sorted_array_sort:
  assumes tot: "\<And>a b. a \<in> A \<Longrightarrow> b \<in> A \<Longrightarrow> cmp a b \<le> 0 \<or> cmp b a \<le> 0"
    and tr: "\<And>a b c. a \<in> A \<Longrightarrow> b \<in> A \<Longrightarrow> c \<in> A \<Longrightarrow> cmp a b \<le> 0 \<Longrightarrow> cmp b c \<le> 0 \<Longrightarrow> cmp a c \<le> 0"
  shows "set xs \<subseteq> A \<Longrightarrow> sorted_wrt (\<lambda>a b. cmp a b \<le> 0) (array_sort cmp xs)"
proof (induction xs)
  case Nil
  then show ?case by simp
next
  case (Cons x xs)
  then show ?case
    using sorted_insert_sorted [of A cmp x "array_sort cmp xs", OF tot tr]
    by (auto simp: set_array_sort)
qed

lemma compare_teams_le:
  assumes lc: "lc ''eastern conference'' ''western conference'' < 0"
      "0 < lc ''western conference'' ''eastern conference''"
    and ab: "two_conf a" "two_conf b"
  shows "compare_teams lc a b \<le> 0 \<longleftrightarrow>
     (conf_lower a = ''eastern conference'' \<and> conf_lower b = ''western conference'')
     \<or> (conf_lower a = conf_lower b \<and> rank_then_pct a b)"
  using ab lc
  by (auto simp: two_conf_def compare_teams_def Let_def rank_then_pct_def)


lemma two_conf_total:
  assumes lc: "lc ''eastern conference'' ''western conference'' < 0"
      "0 < lc ''western conference'' ''eastern conference''"
    and ab: "two_conf a" "two_conf b"
  shows "compare_teams lc a b \<le> 0 \<or> compare_teams lc b a \<le> 0"
  unfolding compare_teams_le [OF lc ab] compare_teams_le [OF lc ab(2,1)]
  using ab by (auto simp: two_conf_def rank_then_pct_def)

lemma two_conf_trans:
  assumes lc: "lc ''eastern conference'' ''western conference'' < 0"
      "0 < lc ''western conference'' ''eastern conference''"
    and abc: "two_conf a" "two_conf b" "two_conf c"
    and le: "compare_teams lc a b \<le> 0" "compare_teams lc b c \<le> 0"
  shows "compare_teams lc a c \<le> 0"
  using le unfolding compare_teams_le [OF lc abc(1,2)] compare_teams_le [OF lc abc(2,3)]
    compare_teams_le [OF lc abc(1,3)]
  by (auto simp: rank_then_pct_def)

lemma sorted_sortStandings:
  assumes lc: "lc ''eastern conference'' ''western conference'' < 0"
      "0 < lc ''western conference'' ''eastern conference''"
    and ts: "\<forall>t \<in> set ts. two_conf t"
  shows "sorted_wrt (\<lambda>a b. compare_teams lc a b \<le> 0) (sortStandings lc ts)"
  unfolding sortStandings_def
proof (rule sorted_array_sort [where A = "Collect two_conf"])
  show "set ts \<subseteq> Collect two_conf" using ts by auto
  show "compare_teams lc a b \<le> 0 \<or> compare_teams lc b a \<le> 0"
    if "a \<in> Collect two_conf" "b \<in> Collect two_conf" for a b
    using two_conf_total [OF lc] that by simp
  show "compare_teams lc a c \<le> 0"
    if "a \<in> Collect two_conf" "b \<in> Collect two_conf" "c \<in> Collect two_conf"
      "compare_teams lc a b \<le> 0" "compare_teams lc b c \<le> 0" for a b c
    using two_conf_trans [OF lc, of a b c] that by simp
qed

lemma east_iff: "two_conf t \<Longrightarrow> str_includes (conf_lower t) ''east'' \<longleftrightarrow> conf_lower t = ''eastern conference''"
  by (auto simp: two_conf_def)

lemma west_iff: "two_conf t \<Longrightarrow> str_includes (conf_lower t) ''west'' \<longleftrightarrow> conf_lower t = ''western conference''"
  by (auto simp: two_conf_def)

lemma sorted_side:
  assumes lc: "lc ''eastern conference'' ''western conference'' < 0"
      "0 < lc ''western conference'' ''eastern conference''"
    and ts: "\<forall>t \<in> set ts. two_conf t"
  shows "sorted_wrt rank_then_pct (filter (\<lambda>t. conf_lower t = label) (sortStandings lc ts))"
proof -
  let ?xs = "filter (\<lambda>t. conf_lower t = label) (sortStandings lc ts)"
  have "sorted_wrt (\<lambda>a b. compare_teams lc a b \<le> 0) ?xs"
    by (rule sorted_wrt_filter) (rule sorted_sortStandings [OF lc ts])
  moreover have "rank_then_pct a b"
    if "a \<in> set ?xs" "b \<in> set ?xs" "compare_teams lc a b \<le> 0" for a b
  proof -
    from that ts have ab: "two_conf a" "two_conf b" "conf_lower a = label" "conf_lower b = label"
      by (auto simp: sortStandings_def set_array_sort)
    with that(3) show ?thesis
      unfolding compare_teams_le [OF lc ab(1,2)] by auto
  qed
  ultimately show ?thesis
    by (rule sorted_wrt_mono_rel [rotated]) 
qed

text \<open>
  Claim C9. Let every team's conference label be "Eastern Conference" or "Western
  Conference" in some letter case, and let the platform's collation put the first before
  the second. Then the two derived lists together hold exactly the teams of the response
  (as multisets), no team is in both, and each list is ordered by playoff rank ascending,
  ties by win percentage descending.
\<close>

theorem standings_partition_sorted:
  assumes lc: "lc ''eastern conference'' ''western conference'' < 0"
      "0 < lc ''western conference'' ''eastern conference''"
    and ts: "\<forall>t \<in> set ts. conf_lower t = ''eastern conference''
                          \<or> conf_lower t = ''western conference''"
  shows "mset (east (sortStandings lc ts)) + mset (west (sortStandings lc ts)) = mset ts
     \<and> set (east (sortStandings lc ts)) \<inter> set (west (sortStandings lc ts)) = {}
     \<and> sorted_wrt rank_then_pct (east (sortStandings lc ts))
     \<and> sorted_wrt rank_then_pct (west (sortStandings lc ts))"
proof -
  let ?S = "sortStandings lc ts"
  from ts have tc: "\<forall>t \<in> set ts. two_conf t" by (simp add: two_conf_def)
  then have tcS: "\<forall>t \<in> set ?S. two_conf t"
    by (simp add: sortStandings_def set_array_sort)
  have e: "east ?S = filter (\<lambda>t. conf_lower t = ''eastern conference'') ?S"
    unfolding east_def using tcS by (intro filter_cong refl) (simp add: east_iff)
  have w: "west ?S = filter (\<lambda>t. conf_lower t = ''western conference'') ?S"
    unfolding west_def using tcS by (intro filter_cong refl) (simp add: west_iff)
  have w': "west ?S = filter (\<lambda>t. \<not> conf_lower t = ''eastern conference'') ?S"
    unfolding w using tcS by (intro filter_cong refl) (auto simp: two_conf_def)
  have "mset (east ?S) + mset (west ?S) = mset ?S"
    unfolding e w' by simp
  then have p: "mset (east ?S) + mset (west ?S) = mset ts"
    by (simp add: sortStandings_def mset_array_sort)
  have d: "set (east ?S) \<inter> set (west ?S) = {}"
    unfolding e w' by auto
  show ?thesis
    using p d sorted_side [OF lc tc, of "''eastern conference''"]
      sorted_side [OF lc tc, of "''western conference''"]
    by (simp add: e w)
qed

text \<open>
  Four teams with labels in mixed case, two per conference, one tie on rank in the West.
\<close>

lemma example_conf:
  "conf_lower lakers = ''western conference''"
  "conf_lower knicks = ''eastern conference''"
  "conf_lower thunder = ''western conference''"
  "conf_lower celtics = ''eastern conference''"
  by (simp_all add: lakers_def knicks_def thunder_def celtics_def mk_team_def conf_lower_def
      toLowerCase_def lower_char_def)

lemma example_keys:
  "rank_key lakers = 1" "rank_key knicks = 2" "rank_key thunder = 1" "rank_key celtics = 1"
  "pct_key lakers = 7 / 10" "pct_key knicks = 3 / 5" "pct_key thunder = 4 / 5"
  "pct_key celtics = 3 / 4"
  by (simp_all add: lakers_def knicks_def thunder_def celtics_def mk_team_def rank_key_def
      pct_key_def)

lemma example_lc:
  "code_unit_compare ''eastern conference'' ''western conference'' = - 1"
  "code_unit_compare ''western conference'' ''eastern conference'' = 1"
  by simp_all

lemma example_sorted:
  "sortStandings code_unit_compare [lakers, knicks, thunder, celtics]
     = [celtics, knicks, thunder, lakers]"
  by (simp add: sortStandings_def compare_teams_def Let_def example_conf example_keys
      example_lc)

theorem standings_partition_sorted_witness:
  "code_unit_compare ''eastern conference'' ''western conference'' < 0
  \<and> 0 < code_unit_compare ''western conference'' ''eastern conference''
  \<and> conf_lower lakers = ''western conference''
  \<and> conf_lower knicks = ''eastern conference''
  \<and> conf_lower thunder = ''western conference''
  \<and> conf_lower celtics = ''eastern conference''
  \<and> east (sortStandings code_unit_compare [lakers, knicks, thunder, celtics])
      = [celtics, knicks]
  \<and> west (sortStandings code_unit_compare [lakers, knicks, thunder, celtics])
      = [thunder, lakers]
  \<and> sorted_wrt rank_then_pct
       (east (sortStandings code_unit_compare [lakers, knicks, thunder, celtics]))
  \<and> sorted_wrt rank_then_pct
       (west (sortStandings code_unit_compare [lakers, knicks, thunder, celtics]))"
proof -
  have h: "\<forall>t \<in> set [lakers, knicks, thunder, celtics].
       conf_lower t = ''eastern conference'' \<or> conf_lower t = ''western conference''"
    by (simp add: example_conf)
  have l: "code_unit_compare ''eastern conference'' ''western conference'' < 0"
     "0 < code_unit_compare ''western conference'' ''eastern conference''"
    by (simp_all add: example_lc)
  have e: "east [celtics, knicks, thunder, lakers] = [celtics, knicks]"
    "west [celtics, knicks, thunder, lakers] = [thunder, lakers]"
    by (simp_all add: east_def west_def example_conf)
  from standings_partition_sorted [OF l h]
  have "sorted_wrt rank_then_pct
          (east (sortStandings code_unit_compare [lakers, knicks, thunder, celtics]))
     \<and> sorted_wrt rank_then_pct
          (west (sortStandings code_unit_compare [lakers, knicks, thunder, celtics]))"
    by blast
  with l e show ?thesis
    by (simp only: example_sorted example_conf)
qed

end
